theory Spec2Isabelle
  imports Complex_Main "HOL-Library.Sublist"
begin

section \<open>Values and data model\<close>

text \<open>
  The values the program handles are Python objects decoded from JSON (\<open>response.json()\<close>)
  and the objects it writes out again. \<open>PNone\<close> is Python's \<open>None\<close>, which is also what a
  JSON \<open>null\<close> decodes to. A \<open>dict\<close> is an association list looked up by key.
  Python's floats are modelled by exact rationals: the rounding of binary floating point
  is outside this model.
\<close>

datatype pyval =
    PNone
  | PBool bool
  | PInt int
  | PFloat rat
  | PStr string
  | PList "pyval list"
  | PDict "(string \<times> pyval) list"

datatype error = KeyError | AttributeError | TypeError | ValueError

text \<open>
  The dataclasses. Python does not check the annotations of a dataclass, and the two
  retrievers store decoded JSON values in the fields as they come. The records are
  therefore parametrised by the types of the annotated fields: \<open>'i\<close> for the fields
  annotated \<open>int\<close> and \<open>'s\<close> for those annotated \<open>str\<close> that are filled from JSON.
  The enrichment engine and the exporters are modelled at the annotated types.
\<close>

record ('s, 'i) TeamStats =
  team_id :: int
  name :: 's
  season_id :: int
  goals_scored :: 'i
  matches_played :: 'i

record ('s, 'i) MatchInfo =
  event_id :: 'i
  start_timestamp :: 'i
  home_team_id :: 'i
  home_team_name :: 's
  away_team_id :: 'i
  away_team_name :: 's
  tournament_name :: 's
  match_season_id :: 'i

type_synonym team_stats = "(string, int) TeamStats"
type_synonym match_info = "(string, int) MatchInfo"

record MatchWithExpectedGoals =
  match :: match_info
  home_stats :: "team_stats option"
  away_stats :: "team_stats option"
  exp_goals_home :: "rat option"
  exp_goals_away :: "rat option"
  joint_expected_goals :: "rat option"

text \<open>The property \<open>TeamStats.goals_per_match\<close>; \<open>/\<close> is Python's true division.\<close>

definition goals_per_match :: "team_stats \<Rightarrow> rat option" where
  "goals_per_match ts =
     (if matches_played ts \<le> 0 then None
      else Some (of_int (goals_scored ts) / of_int (matches_played ts)))"


section \<open>Python operations on decoded values\<close>

text \<open>Truth value testing: \<open>None\<close>, \<open>False\<close>, zero and empty containers are false.\<close>

fun truthy :: "pyval \<Rightarrow> bool" where
  "truthy PNone = False"
| "truthy (PBool b) = b"
| "truthy (PInt i) = (i \<noteq> 0)"
| "truthy (PFloat x) = (x \<noteq> 0)"
| "truthy (PStr s) = (s \<noteq> [])"
| "truthy (PList xs) = (xs \<noteq> [])"
| "truthy (PDict kvs) = (kvs \<noteq> [])"

text \<open>Sequencing of computations that may raise.\<close>

definition and_then :: "error + 'a \<Rightarrow> ('a \<Rightarrow> error + 'b) \<Rightarrow> error + 'b" where
  "and_then r f = (case r of Inl e \<Rightarrow> Inl e | Inr v \<Rightarrow> f v)"

text \<open>
  \<open>a or b\<close>: the right operand is evaluated only when the left one is false, and the
  value returned is one of the operands, not a boolean.
\<close>

definition py_or :: "error + pyval \<Rightarrow> error + pyval \<Rightarrow> error + pyval" where
  "py_or a b = (case a of Inl e \<Rightarrow> Inl e | Inr v \<Rightarrow> if truthy v then Inr v else b)"

text \<open>\<open>x.get(key, default)\<close>: only a dict has the method.\<close>

fun py_get :: "pyval \<Rightarrow> string \<Rightarrow> pyval \<Rightarrow> error + pyval" where
  "py_get (PDict kvs) k d = Inr (case map_of kvs k of None \<Rightarrow> d | Some v \<Rightarrow> v)"
| "py_get _ k d = Inl AttributeError"





text \<open>\<open>str(n)\<close> for an integer, as the f-strings format the identifiers.\<close>

function str_nat :: "nat \<Rightarrow> string" where
  "str_nat n =
     (if n < 10 then [''0123456789'' ! n]
      else str_nat (n div 10) @ [''0123456789'' ! (n mod 10)])"
  by pat_completeness auto
termination
  by (relation "measure (\<lambda>n. n)") auto

declare str_nat.simps [simp del]

definition str_int :: "int \<Rightarrow> string" where
  "str_int i = (if i < 0 then CHR ''-'' # str_nat (nat (- i)) else str_nat (nat i))"

section \<open>The HTTP fetch helper\<close>

text \<open>
  The network is a function from the history of the run and the URL to the outcome of
  the next GET request: a response with its status code and decoded body, or a
  \<open>requests.RequestException\<close>. The history records every request sent and every
  delay waited, in order. A response carries the value its body decodes to. \<open>params\<close>
  is \<open>None\<close> at every call of the program and is left out. \<open>time.sleep\<close> raises
  ValueError on a negative delay.
\<close>

datatype outcome = Response int pyval | RequestException

datatype event = Request string | Sleep rat

type_synonym server = "event list \<Rightarrow> string \<Rightarrow> outcome"

definition BASE_URL :: string where
  "BASE_URL = ''https://api.sofascore.com/api/v1''"


fun get_json_attempts ::
  "server \<Rightarrow> string \<Rightarrow> rat \<Rightarrow> nat \<Rightarrow> event list \<Rightarrow> (error + pyval) \<times> event list" where
  "get_json_attempts srv url sleep 0 tr = (Inr PNone, tr)"
| "get_json_attempts srv url sleep (Suc n) tr =
     (case srv tr url of
        Response status_code body \<Rightarrow>
          if status_code = 200 then (Inr body, tr @ [Request url])
          else if sleep < 0 then (Inl ValueError, tr @ [Request url])
          else get_json_attempts srv url sleep n (tr @ [Request url, Sleep sleep])
      | RequestException \<Rightarrow>
          if sleep < 0 then (Inl ValueError, tr @ [Request url])
          else get_json_attempts srv url sleep n (tr @ [Request url, Sleep sleep]))"

text \<open>\<open>range(retries)\<close> is empty for a negative \<open>retries\<close>.\<close>

definition get_json ::
  "server \<Rightarrow> string \<Rightarrow> int \<Rightarrow> rat \<Rightarrow> event list \<Rightarrow> (error + pyval) \<times> event list" where
  "get_json srv url retries sleep tr = get_json_attempts srv url sleep (nat retries) tr"

text \<open>The call with the defaults \<open>retries=3, sleep=0.5\<close>.\<close>

definition get_json_default :: "server \<Rightarrow> string \<Rightarrow> event list \<Rightarrow> (error + pyval) \<times> event list" where
  "get_json_default srv url tr = get_json srv url 3 (1 / 2) tr"

section \<open>The schedule retriever\<close>








section \<open>The team statistics retriever\<close>

type_synonym raw_team_stats = "(pyval, pyval) TeamStats"

text \<open>The body of the \<open>try\<close> in \<open>get_team_stats\<close>.\<close>

definition team_stats_body :: "pyval \<Rightarrow> int \<Rightarrow> int \<Rightarrow> error + raw_team_stats" where
  "team_stats_body data tid sid =
     and_then (py_get data ''statistics'' (PDict [])) (\<lambda>stats.
     and_then (py_or (py_or (py_or (py_get stats ''goalsScored'' PNone)
                                   (py_get stats ''goalsFor'' PNone))
                            (py_get stats ''scored'' PNone))
                     (Inr (PInt 0))) (\<lambda>gs.
     and_then (py_or (py_or (py_or (py_get stats ''matchesPlayed'' PNone)
                                   (py_get stats ''played'' PNone))
                            (py_get stats ''games'' PNone))
                     (Inr (PInt 0))) (\<lambda>mp.
     and_then (and_then (py_get data ''team'' (PDict []))
                 (\<lambda>t. py_get t ''name'' (PStr (''Team '' @ str_int tid)))) (\<lambda>nm.
     Inr \<lparr> team_id = tid, name = nm, season_id = sid,
           goals_scored = gs, matches_played = mp \<rparr>))))"

text \<open>What \<open>get_team_stats\<close> does with the value \<open>get_json\<close> returned;
  \<open>except Exception\<close> turns every exception of the body into \<open>None\<close>.\<close>

definition team_stats_of :: "pyval \<Rightarrow> int \<Rightarrow> int \<Rightarrow> raw_team_stats option" where
  "team_stats_of data tid sid =
     (if \<not> truthy data then None
      else case team_stats_body data tid sid of Inl e \<Rightarrow> None | Inr ts \<Rightarrow> Some ts)"

definition get_team_stats ::
  "server \<Rightarrow> int \<Rightarrow> int \<Rightarrow> event list \<Rightarrow> (error + raw_team_stats option) \<times> event list" where
  "get_team_stats srv tid sid tr =
     (let url = BASE_URL @ ''/team/'' @ str_int tid @ ''/statistics/seasons/'' @ str_int sid;
          (data, tr') = get_json_default srv url tr
      in (and_then data (\<lambda>d. Inr (team_stats_of d tid sid)), tr'))"

section \<open>The match enrichment engine\<close>

text \<open>
  \<open>compute_expected_goals_for_matches\<close> is modelled at the annotated types. The call
  \<open>get_team_stats(team_id, season_id)\<close> is the parameter \<open>fetch\<close>, a function of the
  annotated type \<open>int, int -> Optional[TeamStats]\<close> that reads and changes the outside
  world \<open>'w\<close>: its answer may differ from one call to the next. It always returns, as
  \<open>get_team_stats\<close> does: the exceptions of the request are caught in \<open>get_json\<close>, those
  of the parsing in \<open>get_team_stats\<close>. The state of the loop holds the cache, the results,
  the world, and a journal of the calls made and of the delays waited, which the program
  itself does not keep.
\<close>

datatype run_event = GetTeamStats int int "team_stats option" | Pause rat

record 'w run =
  stats_cache :: "int \<times> int \<Rightarrow> team_stats option option"
  results :: "MatchWithExpectedGoals list"
  world :: 'w
  journal :: "run_event list"

type_synonym 'w fetch = "int \<Rightarrow> int \<Rightarrow> 'w \<Rightarrow> team_stats option \<times> 'w"

text \<open>\<open>if key not in stats_cache: stats_cache[key] = get_team_stats(...); time.sleep(0.2)\<close>\<close>

definition ensure_cached :: "'w fetch \<Rightarrow> int \<Rightarrow> int \<Rightarrow> 'w run \<Rightarrow> 'w run" where
  "ensure_cached fetch tid sid st =
     (if stats_cache st (tid, sid) = None then
        (let (r, w') = fetch tid sid (world st)
         in st\<lparr> stats_cache := (stats_cache st)((tid, sid) \<mapsto> r),
                world := w',
                journal := journal st @ [GetTeamStats tid sid r, Pause (1 / 5)] \<rparr>)
      else st)"

text \<open>\<open>stats_cache[key]\<close> raises KeyError on a key that is not there.\<close>

definition cache_read ::
  "(int \<times> int \<Rightarrow> team_stats option option) \<Rightarrow> int \<times> int \<Rightarrow> error + team_stats option" where
  "cache_read c k = (case c k of None \<Rightarrow> Inl KeyError | Some v \<Rightarrow> Inr v)"

text \<open>An instance of a dataclass is always true, so \<open>x if home_stats else None\<close> tests
  for \<open>None\<close> only.\<close>

definition exp_goals :: "team_stats option \<Rightarrow> rat option" where
  "exp_goals stats = (case stats of None \<Rightarrow> None | Some ts \<Rightarrow> goals_per_match ts)"

definition joint_of :: "rat option \<Rightarrow> rat option \<Rightarrow> rat option" where
  "joint_of exp_home exp_away =
     (if exp_home \<noteq> None \<and> exp_away \<noteq> None then Some (the exp_home + the exp_away)
      else None)"

text \<open>One pass of the loop body.\<close>

definition enrich_match :: "'w fetch \<Rightarrow> match_info \<Rightarrow> 'w run \<Rightarrow> error + 'w run" where
  "enrich_match fetch m st =
     (let key_home = (home_team_id m, match_season_id m);
          key_away = (away_team_id m, match_season_id m);
          st1 = ensure_cached fetch (home_team_id m) (match_season_id m) st;
          st2 = ensure_cached fetch (away_team_id m) (match_season_id m) st1
      in and_then (cache_read (stats_cache st2) key_home) (\<lambda>hs.
         and_then (cache_read (stats_cache st2) key_away) (\<lambda>as.
           let exp_home = exp_goals hs;
               exp_away = exp_goals as;
               joint = joint_of exp_home exp_away
           in Inr (st2\<lparr> results := results st2 @
                   [\<lparr> match = m, home_stats = hs, away_stats = as,
                      exp_goals_home = exp_home, exp_goals_away = exp_away,
                      joint_expected_goals = joint \<rparr>] \<rparr>))))"

fun enrich_loop :: "'w fetch \<Rightarrow> match_info list \<Rightarrow> 'w run \<Rightarrow> error + 'w run" where
  "enrich_loop fetch [] st = Inr st"
| "enrich_loop fetch (m # ms) st =
     (case enrich_match fetch m st of
        Inl e \<Rightarrow> Inl e
      | Inr st' \<Rightarrow> enrich_loop fetch ms st')"

text \<open>The run from the empty cache, and the function itself, which returns the results.\<close>

definition enrichment_run :: "'w fetch \<Rightarrow> 'w \<Rightarrow> match_info list \<Rightarrow> error + 'w run" where
  "enrichment_run fetch w matches =
     enrich_loop fetch matches
       \<lparr> stats_cache = Map.empty, results = [], world = w, journal = [] \<rparr>"

definition compute_expected_goals_for_matches ::
  "'w fetch \<Rightarrow> 'w \<Rightarrow> match_info list \<Rightarrow> error + MatchWithExpectedGoals list" where
  "compute_expected_goals_for_matches fetch w matches =
     and_then (enrichment_run fetch w matches) (\<lambda>st. Inr (results st))"


section \<open>The exporters\<close>

text \<open>
  An exporter is modelled by the name of the file it opens and what it writes there:
  the rows handed to \<open>csv.writer\<close>, the list handed to \<open>json.dump\<close>. A cell is the
  Python value the program puts in the row. The format specification \<open>.2f\<close> is the
  parameter \<open>fmt\<close>.
\<close>

definition csv_header :: "pyval list" where
  "csv_header = map PStr
     [''Home Team'', ''Away Team'', ''Tournament'',
      ''Expected Goals Home'', ''Expected Goals Away'', ''Joint Expected Goals'',
      ''Home Goals Scored'', ''Home Matches Played'',
      ''Away Goals Scored'', ''Away Matches Played'']"

text \<open>\<open>f"{x:.2f}" if x else ""\<close> on an optional float: \<open>None\<close> and zero are false.\<close>

definition fmt_if_true :: "(rat \<Rightarrow> string) \<Rightarrow> rat option \<Rightarrow> pyval" where
  "fmt_if_true fmt x = (if x \<noteq> None \<and> the x \<noteq> 0 then PStr (fmt (the x)) else PStr [])"

definition stat_cell :: "(team_stats \<Rightarrow> int) \<Rightarrow> team_stats option \<Rightarrow> pyval \<Rightarrow> pyval" where
  "stat_cell field stats fallback = (case stats of None \<Rightarrow> fallback | Some ts \<Rightarrow> PInt (field ts))"

text \<open>The row of a match whose joint value is \<open>j\<close>.\<close>

definition csv_row :: "(rat \<Rightarrow> string) \<Rightarrow> MatchWithExpectedGoals \<Rightarrow> rat \<Rightarrow> pyval list" where
  "csv_row fmt m j =
     [PStr (home_team_name (match m)),
      PStr (away_team_name (match m)),
      PStr (tournament_name (match m)),
      fmt_if_true fmt (exp_goals_home m),
      fmt_if_true fmt (exp_goals_away m),
      PStr (fmt j),
      stat_cell goals_scored (home_stats m) (PStr []),
      stat_cell matches_played (home_stats m) (PStr []),
      stat_cell goals_scored (away_stats m) (PStr []),
      stat_cell matches_played (away_stats m) (PStr [])]"

fun write_rows ::
  "(rat \<Rightarrow> string) \<Rightarrow> MatchWithExpectedGoals list \<Rightarrow> pyval list list \<Rightarrow> pyval list list" where
  "write_rows fmt [] written = written"
| "write_rows fmt (m # ms) written =
     (case joint_expected_goals m of
        None \<Rightarrow> write_rows fmt ms written
      | Some j \<Rightarrow> write_rows fmt ms (written @ [csv_row fmt m j]))"

definition export_to_csv ::
  "(rat \<Rightarrow> string) \<Rightarrow> MatchWithExpectedGoals list \<Rightarrow> string \<Rightarrow> string \<times> pyval list list" where
  "export_to_csv fmt matches date_str =
     (''handball_expected_goals_'' @ date_str @ ''.csv'', write_rows fmt matches [csv_header])"

definition opt_float :: "rat option \<Rightarrow> pyval" where
  "opt_float x = (case x of None \<Rightarrow> PNone | Some v \<Rightarrow> PFloat v)"

definition json_object :: "MatchWithExpectedGoals \<Rightarrow> pyval" where
  "json_object m = PDict
     [(''home_team'', PStr (home_team_name (match m))),
      (''away_team'', PStr (away_team_name (match m))),
      (''tournament'', PStr (tournament_name (match m))),
      (''exp_goals_home'', opt_float (exp_goals_home m)),
      (''exp_goals_away'', opt_float (exp_goals_away m)),
      (''joint_expected_goals'', opt_float (joint_expected_goals m)),
      (''home_goals_scored'', stat_cell goals_scored (home_stats m) PNone),
      (''home_matches_played'', stat_cell matches_played (home_stats m) PNone),
      (''away_goals_scored'', stat_cell goals_scored (away_stats m) PNone),
      (''away_matches_played'', stat_cell matches_played (away_stats m) PNone)]"

fun collect_objects :: "MatchWithExpectedGoals list \<Rightarrow> pyval list \<Rightarrow> pyval list" where
  "collect_objects [] output = output"
| "collect_objects (m # ms) output =
     (if joint_expected_goals m = None then collect_objects ms output
      else collect_objects ms (output @ [json_object m]))"

definition export_to_json :: "MatchWithExpectedGoals list \<Rightarrow> string \<Rightarrow> string \<times> pyval" where
  "export_to_json matches date_str =
     (''handball_expected_goals.json'', PList (collect_objects matches []))"

section \<open>Notions used to state the properties\<close>

text \<open>
  A rendering with two decimals of an exact rational (round half to even), to run the
  CSV exporter on examples. The properties of the exporter are proved for every
  formatter.
\<close>

definition format_2f :: "rat \<Rightarrow> string" where
  "format_2f x =
     (let (p, q) = quotient_of (\<bar>x\<bar> * 100);
          n = p div q;
          r = p mod q;
          h = nat (if q < 2 * r \<or> (2 * r = q \<and> odd n) then n + 1 else n)
      in (if x < 0 then ''-'' else []) @ str_nat (h div 100) @ ''.'' @
         [''0123456789'' ! (h mod 100 div 10), ''0123456789'' ! (h mod 10)])"

text \<open>The member of a decoded object under a key; nothing when the value is not an
  object or has no such key.\<close>

fun member :: "pyval \<Rightarrow> string \<Rightarrow> pyval option" where
  "member (PDict kvs) k = map_of kvs k"
| "member _ k = None"

fun is_object :: "pyval \<Rightarrow> bool" where
  "is_object (PDict kvs) = True"
| "is_object _ = False"




definition object_or_absent :: "pyval \<Rightarrow> string \<Rightarrow> bool" where
  "object_or_absent ev k = (case member ev k of None \<Rightarrow> True | Some v \<Rightarrow> is_object v)"



text \<open>
  The two readings of an alias chain over candidate field names. \<open>first_present\<close>
  follows the words of the specification: the first candidate that is present wins, zero
  when none is. \<open>first_true\<close> takes the first candidate whose value is true in Python's
  sense, zero when none is.
\<close>

fun first_present :: "string list \<Rightarrow> (string \<times> pyval) list \<Rightarrow> pyval" where
  "first_present [] kvs = PInt 0"
| "first_present (k # ks) kvs =
     (case map_of kvs k of None \<Rightarrow> first_present ks kvs | Some v \<Rightarrow> v)"

fun first_true :: "string list \<Rightarrow> (string \<times> pyval) list \<Rightarrow> pyval" where
  "first_true [] kvs = PInt 0"
| "first_true (k # ks) kvs =
     (case map_of kvs k of
        None \<Rightarrow> first_true ks kvs
      | Some v \<Rightarrow> if truthy v then v else first_true ks kvs)"

text \<open>The statistics sub-record \<open>data.get("statistics", {})\<close> of a decoded object.\<close>

definition statistics_of :: "pyval \<Rightarrow> (string \<times> pyval) list" where
  "statistics_of data =
     (case member data ''statistics'' of Some (PDict kvs) \<Rightarrow> kvs | _ \<Rightarrow> [])"

text \<open>A failed attempt of the fetch helper: a status other than 200, or an exception
  of the request.\<close>

fun failed :: "outcome \<Rightarrow> bool" where
  "failed (Response status_code body) = (status_code \<noteq> 200)"
| "failed RequestException = True"

text \<open>The history of \<open>n\<close> failed attempts: each request followed by the delay.\<close>

definition failed_rounds :: "nat \<Rightarrow> string \<Rightarrow> rat \<Rightarrow> event list" where
  "failed_rounds n url sleep = concat (replicate n [Request url, Sleep sleep])"




text \<open>
  A run to try the properties on: teams 1 (10 goals in 5 matches), 2 (8 in 4),
  3 (6 in 3) and 5 (no goal in 3) of season 7, no statistics for any other team; the
  world counts the calls. The matches are 1 against 2, 3 against 4, 1 against 4 and
  5 against 1.
\<close>

definition scenario_fetch :: "nat fetch" where
  "scenario_fetch tid sid calls =
     ((if tid = 1 then Some \<lparr> team_id = tid, name = ''A'', season_id = sid,
                               goals_scored = 10, matches_played = 5 \<rparr>
       else if tid = 2 then Some \<lparr> team_id = tid, name = ''B'', season_id = sid,
                                    goals_scored = 8, matches_played = 4 \<rparr>
       else if tid = 3 then Some \<lparr> team_id = tid, name = ''C'', season_id = sid,
                                    goals_scored = 6, matches_played = 3 \<rparr>
       else if tid = 5 then Some \<lparr> team_id = tid, name = ''E'', season_id = sid,
                                    goals_scored = 0, matches_played = 3 \<rparr>
       else None), Suc calls)"

definition scenario_match :: "int \<Rightarrow> int \<Rightarrow> string \<Rightarrow> int \<Rightarrow> string \<Rightarrow> match_info" where
  "scenario_match eid hid hname aid aname =
     \<lparr> event_id = eid, start_timestamp = 0,
       home_team_id = hid, home_team_name = hname,
       away_team_id = aid, away_team_name = aname,
       tournament_name = ''Cup'', match_season_id = 7 \<rparr>"

definition scenario_matches :: "match_info list" where
  "scenario_matches =
     [scenario_match 100 1 ''A'' 2 ''B'',
      scenario_match 101 3 ''C'' 4 ''D'',
      scenario_match 102 1 ''A'' 4 ''D'',
      scenario_match 103 5 ''E'' 1 ''A'']"

text \<open>The enriched matches of that run.\<close>

definition scenario_results :: "MatchWithExpectedGoals list" where
  "scenario_results =
     (case compute_expected_goals_for_matches scenario_fetch 0 scenario_matches of
        Inl e \<Rightarrow> []
      | Inr rs \<Rightarrow> rs)"




section \<open>Goals per match\<close>



section \<open>The fetch helper retries a fixed number of times\<close>

lemma failed_rounds_Suc:
  "failed_rounds (Suc n) url sleep = [Request url, Sleep sleep] @ failed_rounds n url sleep"
  by (simp add: failed_rounds_def)

lemma attempts_after_failure:
  assumes "failed (srv tr url)" and "0 \<le> sleep"
  shows "get_json_attempts srv url sleep (Suc n) tr =
         get_json_attempts srv url sleep n (tr @ [Request url, Sleep sleep])"
  using assms by (cases "srv tr url") simp_all

lemma attempts_all_failed:
  assumes "0 \<le> sleep"
  shows "(\<And>i. i < n \<Longrightarrow> failed (srv (tr @ failed_rounds i url sleep) url)) \<Longrightarrow>
         get_json_attempts srv url sleep n tr = (Inr PNone, tr @ failed_rounds n url sleep)"
proof (induction n arbitrary: tr)
  case 0
  show ?case by (simp add: failed_rounds_def)
next
  case (Suc n)
  have first: "failed (srv tr url)"
    using Suc.prems [of 0] by (simp add: failed_rounds_def)
  have rest: "failed (srv ((tr @ [Request url, Sleep sleep]) @ failed_rounds i url sleep) url)"
    if "i < n" for i
    using Suc.prems [of "Suc i"] that by (simp add: failed_rounds_Suc)
  show ?case
    using Suc.IH [OF rest] attempts_after_failure [where srv = srv and tr = tr and url = url, OF first assms]
    by (simp add: failed_rounds_Suc)
qed

lemma attempts_first_success:
  assumes "0 \<le> sleep"
  shows "k < n \<Longrightarrow>
         (\<And>i. i < k \<Longrightarrow> failed (srv (tr @ failed_rounds i url sleep) url)) \<Longrightarrow>
         srv (tr @ failed_rounds k url sleep) url = Response 200 body \<Longrightarrow>
         get_json_attempts srv url sleep n tr =
           (Inr body, tr @ failed_rounds k url sleep @ [Request url])"
proof (induction n arbitrary: tr k)
  case 0
  then show ?case by simp
next
  case (Suc n)
  show ?case
  proof (cases k)
    case 0
    with Suc.prems(3) show ?thesis by (simp add: failed_rounds_def)
  next
    case (Suc j)
    have first: "failed (srv tr url)"
      using Suc.prems(2) [of 0] Suc by (simp add: failed_rounds_def)
    have rest: "failed (srv ((tr @ [Request url, Sleep sleep]) @ failed_rounds i url sleep) url)"
      if "i < j" for i
      using Suc.prems(2) [of "Suc i"] that Suc by (simp add: failed_rounds_Suc)
    have hit: "srv ((tr @ [Request url, Sleep sleep]) @ failed_rounds j url sleep) url =
               Response 200 body"
      using Suc.prems(3) Suc by (simp add: failed_rounds_Suc)
    have "j < n" using Suc.prems(1) Suc by simp
    from Suc.IH [OF this rest hit] attempts_after_failure [where srv = srv and tr = tr and url = url, OF first assms]
    show ?thesis using Suc by (simp add: failed_rounds_Suc)
  qed
qed

text \<open>With a delay that is not negative the helper raises nothing, and so neither does
  \<open>get_team_stats\<close>.\<close>

lemma attempts_return:
  "0 \<le> sleep \<Longrightarrow> \<exists>v tr'. get_json_attempts srv url sleep n tr = (Inr v, tr')"
proof (induction n arbitrary: tr)
  case 0
  show ?case by simp
next
  case (Suc n)
  from Suc.IH [OF Suc.prems, of "tr @ [Request url, Sleep sleep]"] Suc.prems
  show ?case by (cases "srv tr url") auto
qed

lemma get_json_default_returns: "\<exists>v tr'. get_json_default srv url tr = (Inr v, tr')"
  unfolding get_json_default_def get_json_def by (rule attempts_return) simp

lemma get_team_stats_returns: "\<exists>r tr'. get_team_stats srv tid sid tr = (Inr r, tr')"
proof -
  let ?url = "BASE_URL @ ''/team/'' @ str_int tid @ ''/statistics/seasons/'' @ str_int sid"
  from get_json_default_returns [of srv ?url tr]
  obtain v tr' where "get_json_default srv ?url tr = (Inr v, tr')" by blast
  then show ?thesis by (simp add: get_team_stats_def and_then_def)
qed

text \<open>
  C7. When every attempt fails, \<open>get_json\<close> makes exactly \<open>retries\<close> attempts (3 by
  default), each followed by the configured delay (1/2 by default), and returns \<open>None\<close>;
  when the attempt after \<open>k < retries\<close> failed ones answers with status 200, it returns
  the decoded body at once. The history gives the requests and the delays in order; the
  delay is non-negative.
\<close>

theorem get_json_retries:
  assumes "0 \<le> sleep"
  shows "((\<forall>i < nat retries. failed (srv (tr @ failed_rounds i url sleep) url)) \<longrightarrow>
            get_json srv url retries sleep tr =
              (Inr PNone, tr @ failed_rounds (nat retries) url sleep)) \<and>
         (\<forall>k body. k < nat retries \<and>
            (\<forall>i < k. failed (srv (tr @ failed_rounds i url sleep) url)) \<and>
            srv (tr @ failed_rounds k url sleep) url = Response 200 body \<longrightarrow>
            get_json srv url retries sleep tr =
              (Inr body, tr @ failed_rounds k url sleep @ [Request url]))"
  unfolding get_json_def
  using attempts_all_failed [OF assms] attempts_first_success [OF assms]
  by blast

theorem get_json_retries_witness:
  "get_json_default (\<lambda>tr url. RequestException) ''u'' [] =
     (Inr PNone, [Request ''u'', Sleep (1 / 2), Request ''u'', Sleep (1 / 2),
                  Request ''u'', Sleep (1 / 2)]) \<and>
   get_json_default
     (\<lambda>tr url. if length tr < 2 then Response 500 PNone else Response 200 (PInt 4)) ''u'' [] =
     (Inr (PInt 4), [Request ''u'', Sleep (1 / 2), Request ''u''])"
proof -
  let ?down = "(\<lambda>tr url. RequestException) :: server"
  let ?late = "(\<lambda>tr url. if length tr < 2 then Response 500 PNone
                           else Response 200 (PInt 4)) :: server"
  have delay: "(0::rat) \<le> 1 / 2" by simp
  have all_fail: "\<forall>i < nat 3. failed (?down ([] @ failed_rounds i ''u'' (1 / 2)) ''u'')"
    by simp
  have one: "(1::nat) < nat 3" by simp
  have before: "\<forall>i < (1::nat). failed (?late ([] @ failed_rounds i ''u'' (1 / 2)) ''u'')"
    by (simp add: failed_rounds_def)
  have hit: "?late ([] @ failed_rounds 1 ''u'' (1 / 2)) ''u'' = Response 200 (PInt 4)"
    by (simp add: failed_rounds_def)
  from get_json_retries [OF delay, of 3 ?down "[]" "''u''"] all_fail
  have a: "get_json ?down ''u'' 3 (1 / 2) [] =
           (Inr PNone, [] @ failed_rounds (nat 3) ''u'' (1 / 2))"
    by blast
  from get_json_retries [OF delay, of 3 ?late "[]" "''u''"] one before hit
  have b: "get_json ?late ''u'' 3 (1 / 2) [] =
           (Inr (PInt 4), [] @ failed_rounds 1 ''u'' (1 / 2) @ [Request ''u''])"
    by blast
  have three: "nat 3 = Suc (Suc (Suc 0))" by simp
  show ?thesis
    unfolding get_json_default_def a b three
    by (simp add: failed_rounds_def)
qed

section \<open>Properties of the enrichment engine\<close>



























section \<open>Properties of the exporters\<close>

lemma write_rows_acc:
  "write_rows fmt ms written =
     written @ map (\<lambda>m. csv_row fmt m (the (joint_expected_goals m)))
                 (filter (\<lambda>m. joint_expected_goals m \<noteq> None) ms)"
  by (induction ms arbitrary: written) (auto split: option.splits)

lemma collect_objects_acc:
  "collect_objects ms acc =
     acc @ map json_object (filter (\<lambda>m. joint_expected_goals m \<noteq> None) ms)"
  by (induction ms arbitrary: acc) auto

text \<open>
  C3. For every list of enriched matches, the CSV exporter writes, after the header, one
  row for each match whose joint value is defined, in order, and the JSON exporter one
  object for each such match; a match whose joint value is undefined is in neither
  output.
\<close>

theorem exporters_skip_undefined_joint:
  "snd (export_to_csv fmt ms date_str) =
     csv_header # map (\<lambda>m. csv_row fmt m (the (joint_expected_goals m)))
                      (filter (\<lambda>m. joint_expected_goals m \<noteq> None) ms) \<and>
   snd (export_to_json ms date_str) =
     PList (map json_object (filter (\<lambda>m. joint_expected_goals m \<noteq> None) ms))"
  by (simp add: export_to_csv_def export_to_json_def write_rows_acc collect_objects_acc)


lemma fmt_if_true_cases:
  "(x = Some 0 \<longrightarrow> fmt_if_true fmt x = PStr []) \<and>
   (\<forall>v. x = Some v \<and> v \<noteq> 0 \<longrightarrow> fmt_if_true fmt x = PStr (fmt v))"
  by (simp add: fmt_if_true_def)

text \<open>
  C9. Every row the CSV exporter writes after the header is the row of a match whose
  joint value is defined, and in such a row a per-team value of exactly zero is an empty
  cell, not the formatted zero, while a defined value other than zero is formatted with
  two decimals. Columns 3 and 4 (counted from 0) hold the home and the away value.
\<close>

theorem csv_zero_is_empty_cell:
  "tl (snd (export_to_csv fmt ms date_str)) =
     map (\<lambda>m. csv_row fmt m (the (joint_expected_goals m)))
         (filter (\<lambda>m. joint_expected_goals m \<noteq> None) ms) \<and>
   (\<forall>m j.
      (exp_goals_home m = Some 0 \<longrightarrow> csv_row fmt m j ! 3 = PStr []) \<and>
      (\<forall>x. exp_goals_home m = Some x \<and> x \<noteq> 0 \<longrightarrow> csv_row fmt m j ! 3 = PStr (fmt x)) \<and>
      (exp_goals_away m = Some 0 \<longrightarrow> csv_row fmt m j ! 4 = PStr []) \<and>
      (\<forall>x. exp_goals_away m = Some x \<and> x \<noteq> 0 \<longrightarrow> csv_row fmt m j ! 4 = PStr (fmt x)))"
proof -
  have cells: "csv_row fmt m j ! 3 = fmt_if_true fmt (exp_goals_home m) \<and>
               csv_row fmt m j ! 4 = fmt_if_true fmt (exp_goals_away m)" for m j
    by (simp add: csv_row_def)
  show ?thesis
    using fmt_if_true_cases [of _ fmt]
    by (simp add: export_to_csv_def write_rows_acc cells)
qed






lemma scenario_export_values:
  "length scenario_results = 4 \<and>
   map joint_expected_goals scenario_results = [Some 4, None, None, Some 2] \<and>
   exp_goals_home (scenario_results ! 3) = Some 0 \<and>
   exp_goals_away (scenario_results ! 3) = Some 2 \<and>
   map (\<lambda>r. home_team_name (match r)) scenario_results = [''A'', ''C'', ''A'', ''E'']"
  by code_simp

lemma format_2f_two: "format_2f 2 = ''2.00''"
  by code_simp


lemma scenario_exported:
  "filter (\<lambda>m. joint_expected_goals m \<noteq> None) scenario_results =
     [scenario_results ! 0, scenario_results ! 3] \<and>
   joint_expected_goals (scenario_results ! 0) = Some 4 \<and>
   joint_expected_goals (scenario_results ! 3) = Some 2"
  by code_simp

theorem exporters_skip_undefined_joint_witness:
  "map (take 3) (snd (export_to_csv format_2f scenario_results ''2024-01-01'')) =
     [[PStr ''Home Team'', PStr ''Away Team'', PStr ''Tournament''],
      [PStr ''A'', PStr ''B'', PStr ''Cup''],
      [PStr ''E'', PStr ''A'', PStr ''Cup'']] \<and>
   (\<exists>objs. snd (export_to_json scenario_results ''2024-01-01'') = PList objs \<and>
           length objs = 2)"
proof -
  have rows: "map (take 3)
      (csv_header # map (\<lambda>m. csv_row format_2f m (the (joint_expected_goals m)))
                      (filter (\<lambda>m. joint_expected_goals m \<noteq> None) scenario_results)) =
     [[PStr ''Home Team'', PStr ''Away Team'', PStr ''Tournament''],
      [PStr ''A'', PStr ''B'', PStr ''Cup''],
      [PStr ''E'', PStr ''A'', PStr ''Cup'']]"
    by code_simp
  have objs: "length (map json_object
      (filter (\<lambda>m. joint_expected_goals m \<noteq> None) scenario_results)) = 2"
    using scenario_exported by simp
  from exporters_skip_undefined_joint [of format_2f scenario_results "''2024-01-01''"]
  show ?thesis using rows objs by simp
qed

theorem csv_zero_is_empty_cell_witness:
  "tl (snd (export_to_csv format_2f scenario_results ''2024-01-01'')) ! 1 ! 3 = PStr [] \<and>
   tl (snd (export_to_csv format_2f scenario_results ''2024-01-01'')) ! 1 ! 4 = PStr ''2.00''"
proof -
  let ?m = "scenario_results ! 3"
  note inst = csv_zero_is_empty_cell [of format_2f scenario_results "''2024-01-01''"]
  from inst scenario_exported
  have row: "tl (snd (export_to_csv format_2f scenario_results ''2024-01-01'')) ! 1 =
             csv_row format_2f ?m 2"
    by simp
  have h: "exp_goals_home ?m = Some 0" and a: "exp_goals_away ?m = Some 2 \<and> (2::rat) \<noteq> 0"
    using scenario_export_values by simp_all
  from inst h have "csv_row format_2f ?m 2 ! 3 = PStr []" by blast
  moreover from inst a have "csv_row format_2f ?m 2 ! 4 = PStr (format_2f 2)" by blast
  ultimately show ?thesis unfolding row by (simp add: format_2f_two)
qed


section \<open>Properties of the team statistics retriever\<close>

lemma and_then_Inr: "and_then r f = Inr v \<longleftrightarrow> (\<exists>a. r = Inr a \<and> f a = Inr v)"
  by (cases r) (simp_all add: and_then_def)

lemma py_get_dict: "py_get (PDict kvs) k d = Inr (case map_of kvs k of None \<Rightarrow> d | Some v \<Rightarrow> v)"
  by simp

lemma py_get_Inr: "py_get x k d = Inr v \<Longrightarrow> is_object x"
  by (cases x) simp_all

lemma or_chain_first_true:
  "py_or (py_or (py_or (py_get (PDict kvs) a PNone) (py_get (PDict kvs) b PNone))
                (py_get (PDict kvs) c PNone)) (Inr (PInt 0)) =
   Inr (first_true [a, b, c] kvs)"
  by (simp add: py_or_def split: option.splits)

lemma team_stats_body_fields:
  assumes "team_stats_body data tid sid = Inr ts"
  shows "goals_scored ts =
           first_true [''goalsScored'', ''goalsFor'', ''scored''] (statistics_of data) \<and>
         matches_played ts =
           first_true [''matchesPlayed'', ''played'', ''games''] (statistics_of data)"
proof -
  from assms obtain stats where s: "py_get data ''statistics'' (PDict []) = Inr stats"
    and rest: "\<exists>gs mp nm.
      py_or (py_or (py_or (py_get stats ''goalsScored'' PNone) (py_get stats ''goalsFor'' PNone))
                   (py_get stats ''scored'' PNone)) (Inr (PInt 0)) = Inr gs \<and>
      py_or (py_or (py_or (py_get stats ''matchesPlayed'' PNone) (py_get stats ''played'' PNone))
                   (py_get stats ''games'' PNone)) (Inr (PInt 0)) = Inr mp \<and>
      ts = \<lparr> team_id = tid, name = nm, season_id = sid, goals_scored = gs, matches_played = mp \<rparr>"
    unfolding team_stats_body_def and_then_Inr by auto
  from s obtain d where d: "data = PDict d" by (cases data) simp_all
  from rest obtain kvs where k: "stats = PDict kvs"
    by (cases stats) (auto simp: py_or_def)
  have "statistics_of data = kvs"
    using s unfolding d k by (auto simp: statistics_of_def split: option.splits)
  then show ?thesis using rest unfolding k or_chain_first_true by auto
qed

lemma team_stats_body_total:
  assumes "is_object data" and "object_or_absent data ''statistics''"
    and "object_or_absent data ''team''"
  shows "\<exists>ts. team_stats_body data tid sid = Inr ts"
proof -
  from assms(1) obtain d where d: "data = PDict d" by (cases data) simp_all
  obtain kvs where s: "py_get data ''statistics'' (PDict []) = Inr (PDict kvs)"
    using assms(2) unfolding d object_or_absent_def
    by (cases "map_of d ''statistics''"; simp) (metis is_object.elims(2))
  obtain tk where t: "py_get data ''team'' (PDict []) = Inr (PDict tk)"
    using assms(3) unfolding d object_or_absent_def
    by (cases "map_of d ''team''"; simp) (metis is_object.elims(2))
  show ?thesis
    by (simp add: team_stats_body_def s t and_then_def or_chain_first_true
          del: py_get.simps) simp
qed

text \<open>
  C6, as the code has it. When the team statistics retriever builds a TeamStats, goals
  scored is the value of the first of \<open>goalsScored\<close>, \<open>goalsFor\<close>, \<open>scored\<close> whose
  value is true in Python's sense (present and not null, zero or empty), and zero when
  there is none; matches played likewise over \<open>matchesPlayed\<close>, \<open>played\<close>, \<open>games\<close>.
  A record that carries a true \<open>goalsFor\<close> and no \<open>goalsScored\<close> resolves goals scored
  to it. The retriever builds a TeamStats for every non-empty object whose
  \<open>statistics\<close> and \<open>team\<close> members are objects where present.
\<close>

theorem alias_chain_first_true:
  "(team_stats_of data tid sid = Some ts \<longrightarrow>
      goals_scored ts =
        first_true [''goalsScored'', ''goalsFor'', ''scored''] (statistics_of data) \<and>
      matches_played ts =
        first_true [''matchesPlayed'', ''played'', ''games''] (statistics_of data) \<and>
      (\<forall>v. map_of (statistics_of data) ''goalsScored'' = None \<and>
           map_of (statistics_of data) ''goalsFor'' = Some v \<and> truthy v \<longrightarrow>
           goals_scored ts = v)) \<and>
   (truthy data \<and> is_object data \<and> object_or_absent data ''statistics'' \<and>
    object_or_absent data ''team'' \<longrightarrow> (\<exists>ts'. team_stats_of data tid sid = Some ts'))"
proof -
  have "goals_scored ts =
          first_true [''goalsScored'', ''goalsFor'', ''scored''] (statistics_of data) \<and>
        matches_played ts =
          first_true [''matchesPlayed'', ''played'', ''games''] (statistics_of data)"
    if "team_stats_of data tid sid = Some ts"
  proof -
    from that have "team_stats_body data tid sid = Inr ts"
      by (auto simp: team_stats_of_def split: if_splits sum.splits)
    then show ?thesis by (rule team_stats_body_fields)
  qed
  moreover have "\<exists>ts'. team_stats_of data tid sid = Some ts'"
    if "truthy data" "is_object data" "object_or_absent data ''statistics''"
       "object_or_absent data ''team''"
    using team_stats_body_total [OF that(2,3,4), of tid sid] that(1)
    by (auto simp: team_stats_of_def)
  ultimately show ?thesis by auto
qed

text \<open>
  C6, as it is stated, fails: with \<open>goalsScored\<close> present and zero and \<open>goalsFor\<close> seven,
  the first candidate present is \<open>goalsScored\<close>, but the retriever resolves goals scored
  to seven.
\<close>

theorem first_present_counterexample:
  "map_option goals_scored
     (team_stats_of (PDict [(''statistics'',
        PDict [(''goalsScored'', PInt 0), (''goalsFor'', PInt 7)])]) 1 7) = Some (PInt 7) \<and>
   first_present [''goalsScored'', ''goalsFor'', ''scored'']
     [(''goalsScored'', PInt 0), (''goalsFor'', PInt 7)] = PInt 0"
  by code_simp

theorem alias_chain_first_true_witness:
  "map_option goals_scored
     (team_stats_of (PDict [(''statistics'',
        PDict [(''goalsFor'', PInt 12), (''played'', PInt 4)])]) 1 7) = Some (PInt 12) \<and>
   map_option matches_played
     (team_stats_of (PDict [(''statistics'',
        PDict [(''goalsFor'', PInt 12), (''played'', PInt 4)])]) 1 7) = Some (PInt 4)"
proof -
  let ?data = "PDict [(''statistics'', PDict [(''goalsFor'', PInt 12), (''played'', PInt 4)])]"
  have shape: "truthy ?data \<and> is_object ?data \<and> object_or_absent ?data ''statistics'' \<and>
               object_or_absent ?data ''team''"
    by (simp add: object_or_absent_def)
  from alias_chain_first_true [of ?data 1 7] shape
  obtain ts where some: "team_stats_of ?data 1 7 = Some ts" by blast
  have stats: "statistics_of ?data = [(''goalsFor'', PInt 12), (''played'', PInt 4)]"
    by (simp add: statistics_of_def)
  have carried: "map_of (statistics_of ?data) ''goalsScored'' = None \<and>
               map_of (statistics_of ?data) ''goalsFor'' = Some (PInt 12) \<and> truthy (PInt 12)"
    unfolding stats by simp
  from alias_chain_first_true [of ?data 1 7 ts] some carried
  have "goals_scored ts = PInt 12" by blast
  moreover from alias_chain_first_true [of ?data 1 7 ts] some
  have "matches_played ts =
          first_true [''matchesPlayed'', ''played'', ''games''] (statistics_of ?data)"
    by blast
  then have "matches_played ts = PInt 4" unfolding stats by simp
  ultimately show ?thesis using some by simp
qed

section \<open>Properties of the schedule retriever\<close>























end
